theory Spec2Isabelle
  imports Main "HOL-Library.List_Lexorder" "HOL-Library.Product_Lexorder" "HOL-Library.Multiset"
begin

section \<open>Data model of \<open>mu/interface/models.py\<close>\<close>

text \<open>
  The module holds three Qt item models. The two with logic of their own are
  \<open>DeviceFileSystem\<close>, a flat list model over the directory listing of a remote device,
  and \<open>SortedFileSystem\<close>, a sort proxy whose \<open>lessThan\<close> orders the rows of its source
  model. Python exceptions are values of \<open>py_error\<close>; a function that can raise returns
  \<open>py_error + 'a\<close> with \<open>Inl\<close> for the exception. Every raise of the modelled methods
  happens before the first assignment and the first \<open>emit\<close> of the method, so a raised
  exception leaves the object as it was and emits nothing.
\<close>

datatype py_error = IndexError

text \<open>
  A listing entry is the Python tuple \<open>(name, is_dir, size)\<close>. Names are Python \<open>str\<close>
  values, modelled as \<open>string\<close>.
\<close>

type_synonym entry = "string \<times> bool \<times> int"

text \<open>
  A \<open>QModelIndex\<close> is read only through \<open>row()\<close> by the module, and built with
  \<open>createIndex(row, column)\<close>. The invalid index \<open>QModelIndex()\<close> has row and column
  \<open>-1\<close>.
\<close>

datatype qmodel_index = QModelIndex (row: int) (column: int)

definition createIndex :: "int \<Rightarrow> int \<Rightarrow> qmodel_index" where
  "createIndex r c = QModelIndex r c"

definition invalid_index :: qmodel_index where
  "invalid_index = QModelIndex (- 1) (- 1)"

datatype role = DisplayRole | DecorationRole | EditRole | OtherRole

datatype icon = Folder | File

datatype variant = VStr string | VIcon icon | VNone

datatype item_flag = ItemIsSelectable | ItemIsEditable | ItemIsEnabled | ItemNeverHasChildren

text \<open>
  The attributes of a \<open>DeviceFileSystem\<close> that the methods read and write:
  \<open>self.path\<close> (a list of path segments) and \<open>self.content\<close> (the listing).
\<close>

record device_fs =
  path :: "string list"
  content :: "entry list"

text \<open>
  The signals a \<open>DeviceFileSystem\<close> emits. A method returns the signals it emitted, in
  the order of the \<open>emit\<close> calls.
\<close>

datatype signal =
    List_files string
  | Delete string
  | Rename string string
  | DataChanged qmodel_index qmodel_index

section \<open>Python primitives\<close>

text \<open>\<open>xs[i]\<close>: a negative index counts from the end; out of range raises.\<close>

definition py_index :: "'a list \<Rightarrow> int \<Rightarrow> py_error + 'a" where
  "py_index xs i =
     (let n = int (length xs) in
      if 0 \<le> i \<and> i < n then Inr (xs ! nat i)
      else if - n \<le> i \<and> i < 0 then Inr (xs ! nat (n + i))
      else Inl IndexError)"

text \<open>\<open>xs.pop()\<close>: removes the last element; raises on the empty list.\<close>

definition py_pop :: "'a list \<Rightarrow> py_error + 'a list" where
  "py_pop xs = (if xs = [] then Inl IndexError else Inr (butlast xs))"

text \<open>\<open>sep.join(xs)\<close>\<close>

fun join :: "string \<Rightarrow> string list \<Rightarrow> string" where
  "join sep [] = []"
| "join sep [x] = x"
| "join sep (x # y # ys) = x @ sep @ join sep (y # ys)"

section \<open>DeviceFileSystem\<close>

definition rowCount :: "device_fs \<Rightarrow> int" where
  "rowCount self = int (length (content self))"

definition columnCount :: "device_fs \<Rightarrow> int" where
  "columnCount self = 1"

text \<open>
  \<open>self.index(row)\<close> is inherited from \<open>QAbstractListModel\<close>: it is
  \<open>createIndex(row, 0)\<close> when \<open>hasIndex(row, 0)\<close> holds, that is
  \<open>0 \<le> row < rowCount()\<close> (and \<open>0 < columnCount()\<close>), and the invalid index otherwise.
\<close>

definition index_of :: "device_fs \<Rightarrow> int \<Rightarrow> qmodel_index" where
  "index_of self r =
     (if 0 \<le> r \<and> r < rowCount self \<and> 0 < columnCount self then createIndex r 0
      else invalid_index)"

definition invalidate :: "device_fs \<Rightarrow> device_fs \<times> signal list" where
  "invalidate self = (self, [List_files (join ''/'' (path self))])"

text \<open>The constructor: empty path, empty listing, then \<open>self.invalidate()\<close>.\<close>

definition init :: "device_fs \<times> signal list" where
  "init = invalidate \<lparr>path = [], content = []\<rparr>"

text \<open>
  \<open>on_ls\<close>: the slot for a successful list response. \<open>self.content = files\<close> binds the
  list object that was received, so the \<open>append\<close> also changes that object for whoever
  else holds it; what is kept here is the listing as the model sees it.
\<close>

definition on_ls :: "device_fs \<Rightarrow> entry list \<Rightarrow> device_fs \<times> signal list" where
  "on_ls self files =
     (let self1 = self\<lparr>content := files\<rparr>;
          self2 = (if length (path self1) > 0
                   then self1\<lparr>content := content self1 @ [(''..'', True, 1)]\<rparr>
                   else self1)
      in (self2,
          [DataChanged (createIndex 0 0) (createIndex 0 (int (length (content self2))))]))"

definition on_ls_fail :: "device_fs \<Rightarrow> device_fs \<times> signal list" where
  "on_ls_fail self =
     (self\<lparr>content := []\<rparr>, [DataChanged (createIndex 0 0) (createIndex 0 0)])"

definition on_mv :: "device_fs \<Rightarrow> string \<Rightarrow> string \<Rightarrow> device_fs \<times> signal list" where
  "on_mv self file new_file = invalidate self"

definition on_mv_fail :: "device_fs \<Rightarrow> string \<Rightarrow> string \<Rightarrow> device_fs \<times> signal list" where
  "on_mv_fail self file new_file = invalidate self"

definition on_delete :: "device_fs \<Rightarrow> string \<Rightarrow> device_fs \<times> signal list" where
  "on_delete self file = invalidate self"

definition on_delete_fail :: "device_fs \<Rightarrow> string \<Rightarrow> device_fs \<times> signal list" where
  "on_delete_fail self file = invalidate self"

definition do_delete :: "device_fs \<Rightarrow> string \<Rightarrow> device_fs \<times> signal list" where
  "do_delete self file = (self, [Delete (join ''/'' (path self) @ ''/'' @ file)])"

definition is_directory :: "device_fs \<Rightarrow> qmodel_index \<Rightarrow> py_error + bool" where
  "is_directory self index =
     (case py_index (content self) (row index) of
        Inl e \<Rightarrow> Inl e
      | Inr (name, is_dir, sz) \<Rightarrow> Inr is_dir)"

definition get_root_index :: "device_fs \<Rightarrow> qmodel_index" where
  "get_root_index self = index_of self (- 1)"

text \<open>
  \<open>enter_directory\<close> returns the index it computes, the object after the call and the
  signals emitted.
\<close>

definition enter_directory ::
  "device_fs \<Rightarrow> qmodel_index \<Rightarrow> py_error + (qmodel_index \<times> device_fs \<times> signal list)" where
  "enter_directory self index =
     (case py_index (content self) (row index) of
        Inl e \<Rightarrow> Inl e
      | Inr (name, is_dir, sz) \<Rightarrow>
          (case (if name = ''..'' then
                   (case py_pop (path self) of
                      Inl e \<Rightarrow> Inl e
                    | Inr p \<Rightarrow> Inr (self\<lparr>path := p\<rparr>))
                 else if is_dir then Inr (self\<lparr>path := path self @ [name]\<rparr>)
                 else Inr self) of
             Inl e \<Rightarrow> Inl e
           | Inr self1 \<Rightarrow>
               Inr (index_of self1 (- 1), self1, [List_files (join ''/'' (path self1))])))"

definition data :: "device_fs \<Rightarrow> qmodel_index \<Rightarrow> role \<Rightarrow> py_error + variant" where
  "data self index r =
     (case py_index (content self) (row index) of
        Inl e \<Rightarrow> Inl e
      | Inr (name, is_dir, sz) \<Rightarrow>
          if r = DisplayRole \<or> r = EditRole then Inr (VStr name)
          else if r = DecorationRole then
            (if is_dir then Inr (VIcon Folder) else Inr (VIcon File))
          else Inr VNone)"

text \<open>
  \<open>flags\<close>: \<open>default_flags\<close> is what \<open>super().flags(index)\<close> returns; it is computed by
  Qt and passed in here.
\<close>

definition flags ::
  "device_fs \<Rightarrow> item_flag set \<Rightarrow> qmodel_index \<Rightarrow> py_error + item_flag set" where
  "flags self default_flags index =
     (case py_index (content self) (row index) of
        Inl e \<Rightarrow> Inl e
      | Inr (name, is_dir, sz) \<Rightarrow>
          if name = ''..'' \<or> name = ''.'' then Inr default_flags
          else Inr (default_flags \<union> {ItemIsEditable}))"

text \<open>
  \<open>setData\<close> returns its boolean, the object after the call and the signals emitted.
  The \<open>print\<close> call writes to standard output only and is left out.
\<close>

definition setData ::
  "device_fs \<Rightarrow> qmodel_index \<Rightarrow> string \<Rightarrow> role \<Rightarrow> py_error + (bool \<times> device_fs \<times> signal list)"
  where
  "setData self index val r =
     (case py_index (content self) (row index) of
        Inl e \<Rightarrow> Inl e
      | Inr (name, is_dir, sz) \<Rightarrow>
          if r = DisplayRole \<or> r = EditRole then
            (let p = join ''/'' (path self) @ ''/'';
                 (self1, sigs) = invalidate self
             in Inr (True, self1, Rename (p @ name) (p @ val) # sigs))
          else Inr (False, self, []))"

section \<open>SortedFileSystem\<close>

text \<open>
  The constructor sets the sort case sensitivity to \<open>Qt.CaseInsensitive\<close>; the sort role
  keeps its default, \<open>Qt.DisplayRole\<close>. With these settings the inherited
  \<open>QSortFilterProxyModel.lessThan\<close> reads the display data of both indices from the
  source model and, for two strings, answers whether the left one precedes the right
  one in the case-insensitive comparison of \<open>QString\<close>: both strings are case-folded and
  compared lexicographically, character by character.
\<close>

text \<open>
  Modelled from the spec: case folding of a character, given by its code point; the
  ASCII capital letters are mapped to the small ones, every other code point to itself.
\<close>

definition fold_case :: "nat \<Rightarrow> nat" where
  "fold_case n = (if 65 \<le> n \<and> n \<le> 90 then n + 32 else n)"

definition case_folded :: "string \<Rightarrow> nat list" where
  "case_folded s = map (\<lambda>c. fold_case (of_char c)) s"

text \<open>
  Modelled from the spec: the case-insensitive lexicographic comparison of two names
  (rule 3 of the ordering policy), which is what the base class computes.
\<close>

definition ci_less :: "string \<Rightarrow> string \<Rightarrow> bool" where
  "ci_less a b \<longleftrightarrow> case_folded a < case_folded b"

fun variant_less :: "variant \<Rightarrow> variant \<Rightarrow> bool" where
  "variant_less (VStr a) (VStr b) = ci_less a b"
| "variant_less _ _ = False"

definition base_lessThan ::
  "device_fs \<Rightarrow> qmodel_index \<Rightarrow> qmodel_index \<Rightarrow> py_error + bool" where
  "base_lessThan source_model left right =
     (case data source_model left DisplayRole of
        Inl e \<Rightarrow> Inl e
      | Inr l \<Rightarrow>
          (case data source_model right DisplayRole of
             Inl e \<Rightarrow> Inl e
           | Inr r \<Rightarrow> Inr (variant_less l r)))"

text \<open>
  \<open>SortedFileSystem.lessThan\<close>, over the \<open>DeviceFileSystem\<close> that is its source model.
  (The name \<open>lessThan\<close> is taken by a constant of HOL.)
\<close>

definition lessThan_proxy ::
  "device_fs \<Rightarrow> qmodel_index \<Rightarrow> qmodel_index \<Rightarrow> py_error + bool" where
  "lessThan_proxy source_model left right =
     (case data source_model left DisplayRole of
        Inl e \<Rightarrow> Inl e
      | Inr left_name \<Rightarrow>
     (case data source_model right DisplayRole of
        Inl e \<Rightarrow> Inl e
      | Inr right_name \<Rightarrow>
     if left_name = VStr ''..'' then Inr True
     else if right_name = VStr ''..'' then Inr False
     else
     (case is_directory source_model left of
        Inl e \<Rightarrow> Inl e
      | Inr left_is_dir \<Rightarrow>
     (case is_directory source_model right of
        Inl e \<Rightarrow> Inl e
      | Inr right_is_dir \<Rightarrow>
     if \<not> left_is_dir \<and> right_is_dir then Inr False
     else if left_is_dir \<and> \<not> right_is_dir then Inr True
     else base_lessThan source_model left right))))"

text \<open>
  The comparison \<open>lessThan\<close> makes once both entries are looked up: the chain of tests
  of its body, on the two tuples. It is used to reason about \<open>lessThan\<close> on rows that are
  inside the listing (lemma \<open>lessThan_in_range\<close> connects the two).
\<close>

definition entry_less :: "entry \<Rightarrow> entry \<Rightarrow> bool" where
  "entry_less a b =
     (case a of (left_name, left_is_dir, _) \<Rightarrow>
      case b of (right_name, right_is_dir, _) \<Rightarrow>
        if left_name = ''..'' then True
        else if right_name = ''..'' then False
        else if \<not> left_is_dir \<and> right_is_dir then False
        else if left_is_dir \<and> \<not> right_is_dir then True
        else ci_less left_name right_name)"

text \<open>An index that names a row of the listing: \<open>0 \<le> row < rowCount()\<close>.\<close>

definition valid_row :: "device_fs \<Rightarrow> qmodel_index \<Rightarrow> bool" where
  "valid_row self index \<longleftrightarrow> 0 \<le> row index \<and> row index < rowCount self"

text \<open>
  Modelled from the spec: an ordering produced by the proxy. The constructor calls
  \<open>self.sort(0)\<close> and connects the source's \<open>dataChanged\<close> to \<open>self.invalidate\<close>, so
  after every change of the listing the base class sorts all source rows again, in
  ascending order, with \<open>lessThan\<close> as the comparison. The sorting itself is done by Qt.
  What is used of it here is the contract of a sort: the displayed rows \<open>ixs\<close> (proxy row
  \<open>k\<close> shows the source index \<open>ixs ! k\<close>) are the source rows \<open>index(0)\<close> to
  \<open>index(rowCount() - 1)\<close>, each once, and no row is \<open>lessThan\<close> a row displayed above it.
\<close>

definition proxy_order :: "device_fs \<Rightarrow> qmodel_index list \<Rightarrow> bool" where
  "proxy_order source_model ixs \<longleftrightarrow>
     mset ixs = mset (map (\<lambda>r. index_of source_model (int r))
                          [0..<length (content source_model)])
     \<and> sorted_wrt (\<lambda>a b. lessThan_proxy source_model b a \<noteq> Inr True) ixs"

text \<open>
  A rank under which \<open>entry_less\<close> is the strict order of the ranks, as long as the two
  entries are not both named \<open>..\<close>: the marker first, then directories, then files, and
  the case-folded name within each group. It serves to show that the proxy has an
  ordering at all (lemma \<open>proxy_order_exists\<close>).
\<close>

definition sort_rank :: "entry \<Rightarrow> nat \<times> nat list" where
  "sort_rank e =
     (if fst e = ''..'' then 0 else if fst (snd e) then 1 else 2, case_folded (fst e))"

section \<open>Facts about indexing\<close>

lemma py_index_in_range:
  "0 \<le> i \<Longrightarrow> i < int (length xs) \<Longrightarrow> py_index xs i = Inr (xs ! nat i)"
  by (simp add: py_index_def)

lemma py_index_negative:
  "- int (length xs) \<le> i \<Longrightarrow> i < 0 \<Longrightarrow> py_index xs i = Inr (xs ! nat (int (length xs) + i))"
  by (simp add: py_index_def)

lemma py_index_beyond:
  "int (length xs) \<le> i \<Longrightarrow> py_index xs i = Inl IndexError"
  by (simp add: py_index_def Let_def)

section \<open>The listing after a list response\<close>

text \<open>
  Claim C6. After a successful list response \<open>files\<close> the listing is \<open>files\<close> followed
  by the one entry \<open>(''..'', True, 1)\<close> when the current path is non-empty, and \<open>files\<close>
  itself when the path is empty; the path is not touched.
\<close>

theorem on_ls_listing:
  "(path self \<noteq> [] \<longrightarrow> content (fst (on_ls self files)) = files @ [(''..'', True, 1)])
   \<and> (path self = [] \<longrightarrow> content (fst (on_ls self files)) = files)
   \<and> path (fst (on_ls self files)) = path self"
  by (simp add: on_ls_def Let_def)

theorem on_ls_listing_witness:
  "content (fst (on_ls \<lparr>path = [''alpha''], content = []\<rparr> [(''x.txt'', False, 5)]))
     = [(''x.txt'', False, 5), (''..'', True, 1)]
   \<and> content (fst (on_ls \<lparr>path = [], content = []\<rparr> [(''alpha'', True, 0), (''b.txt'', False, 120)]))
     = [(''alpha'', True, 0), (''b.txt'', False, 120)]"
  using on_ls_listing [of "\<lparr>path = [''alpha''], content = []\<rparr>" "[(''x.txt'', False, 5)]"]
        on_ls_listing [of "\<lparr>path = [], content = []\<rparr>" "[(''alpha'', True, 0), (''b.txt'', False, 120)]"]
  by simp

section \<open>Rows outside the listing\<close>

text \<open>
  Claim C9. For an index whose row is at least the length of the listing,
  \<open>is_directory\<close> raises \<open>IndexError\<close>; it returns no boolean.
\<close>

theorem is_directory_beyond_length:
  "rowCount self \<le> row index \<Longrightarrow> is_directory self index = Inl IndexError"
  by (simp add: is_directory_def rowCount_def py_index_beyond)

theorem is_directory_beyond_length_witness:
  "is_directory \<lparr>path = [], content = [(''alpha'', True, 0), (''b.txt'', False, 120)]\<rparr>
     (QModelIndex 2 0) = Inl IndexError"
  using is_directory_beyond_length
    [of "\<lparr>path = [], content = [(''alpha'', True, 0), (''b.txt'', False, 120)]\<rparr>" "QModelIndex 2 0"]
  by (simp add: rowCount_def)

text \<open>
  Claim C10. On a non-empty listing of length \<open>n\<close>, an index with a negative row \<open>r\<close>,
  \<open>-n \<le> r \<le> -1\<close>, does not make \<open>is_directory\<close> raise: the answer is the directory flag
  of the entry at position \<open>n + r\<close>. The root index has row \<open>-1\<close>, so asking about it
  gives the flag of the last entry, the same answer as for the index of the last row.
\<close>

theorem is_directory_negative_row:
  assumes "content self \<noteq> []" and "- rowCount self \<le> row index" and "row index \<le> - 1"
  shows "is_directory self index
           = Inr (fst (snd (content self ! nat (rowCount self + row index))))
         \<and> row (get_root_index self) = - 1
         \<and> is_directory self (get_root_index self) = Inr (fst (snd (last (content self))))
         \<and> is_directory self (get_root_index self)
             = is_directory self (index_of self (rowCount self - 1))"
proof -
  have neg: "is_directory self ix
               = Inr (fst (snd (content self ! nat (rowCount self + row ix))))"
    if "- rowCount self \<le> row ix" "row ix < 0" for ix
    using that by (simp add: is_directory_def rowCount_def py_index_negative split: prod.splits)
  have root: "get_root_index self = invalid_index"
    by (simp add: get_root_index_def index_of_def)
  have len: "0 < rowCount self"
    using assms(1) by (simp add: rowCount_def)
  have lastrow: "index_of self (rowCount self - 1) = QModelIndex (rowCount self - 1) 0"
    using len by (simp add: index_of_def createIndex_def columnCount_def)
  have "is_directory self (index_of self (rowCount self - 1))
          = Inr (fst (snd (content self ! nat (rowCount self - 1))))"
    unfolding lastrow using len
    by (simp add: is_directory_def rowCount_def py_index_in_range split: prod.splits)
  moreover have "is_directory self (get_root_index self)
          = Inr (fst (snd (content self ! nat (rowCount self - 1))))"
    using len neg [of invalid_index] by (simp add: root invalid_index_def)
  moreover have "content self ! nat (rowCount self - 1) = last (content self)"
    using assms(1) by (simp add: rowCount_def last_conv_nth nat_diff_distrib')
  ultimately show ?thesis
    using neg [of index] assms(2,3) by (simp add: root invalid_index_def)
qed

theorem is_directory_negative_row_witness:
  "is_directory \<lparr>path = [], content = [(''alpha'', True, 0), (''b.txt'', False, 120)]\<rparr>
     (QModelIndex (- 2) 0) = Inr True
   \<and> is_directory \<lparr>path = [], content = [(''alpha'', True, 0), (''b.txt'', False, 120)]\<rparr>
     (get_root_index \<lparr>path = [], content = [(''alpha'', True, 0), (''b.txt'', False, 120)]\<rparr>)
       = Inr False"
  using is_directory_negative_row
    [of "\<lparr>path = [], content = [(''alpha'', True, 0), (''b.txt'', False, 120)]\<rparr>" "QModelIndex (- 2) 0"]
  by (simp add: rowCount_def)

section \<open>Renaming and deleting\<close>

text \<open>
  Claim C1, as stated, fails: \<open>setData\<close> never looks at the name of the entry. In the
  directory \<open>lib\<close>, with the parent marker at row 1, an edit of that row to \<open>x\<close> emits the
  rename of \<open>lib/..\<close> to \<open>lib/x\<close> and a list request, and returns \<open>True\<close>.
\<close>

theorem setData_renames_parent_marker:
  "setData \<lparr>path = [''lib''], content = [(''a.py'', False, 10), (''..'', True, 1)]\<rparr>
     (QModelIndex 1 0) ''x'' EditRole
   = Inr (True, \<lparr>path = [''lib''], content = [(''a.py'', False, 10), (''..'', True, 1)]\<rparr>,
          [Rename ''lib/..'' ''lib/x'', List_files ''lib''])"
  by (simp add: setData_def py_index_def invalidate_def)

text \<open>
  Claim C1, amended. The parent marker is kept from renaming by \<open>flags\<close> alone: for a
  row of the listing whose entry is named \<open>..\<close>, \<open>flags\<close> returns the default flags and
  adds no \<open>ItemIsEditable\<close>. \<open>setData\<close> on that row, with the display or the edit role,
  emits the rename of \<open>path/..\<close> to \<open>path/value\<close> and then one list request, changes
  neither path nor listing, and returns \<open>True\<close>; with any other role it emits nothing,
  changes nothing and returns \<open>False\<close>.
\<close>

theorem parent_marker_not_editable:
  assumes "0 \<le> row index" and "row index < rowCount self"
    and "content self ! nat (row index) = (''..'', d, z)"
  shows "flags self default_flags index = Inr default_flags
     \<and> (r = DisplayRole \<or> r = EditRole \<longrightarrow>
          setData self index val r
            = Inr (True, self,
                   [Rename (join ''/'' (path self) @ ''/'' @ ''..'')
                           (join ''/'' (path self) @ ''/'' @ val),
                    List_files (join ''/'' (path self))]))
     \<and> (r \<noteq> DisplayRole \<and> r \<noteq> EditRole \<longrightarrow>
          setData self index val r = Inr (False, self, []))"
  using assms
  by (simp add: flags_def setData_def rowCount_def py_index_in_range invalidate_def)

theorem parent_marker_not_editable_witness:
  "flags \<lparr>path = [''lib''], content = [(''a.py'', False, 10), (''..'', True, 1)]\<rparr>
     {ItemIsSelectable, ItemIsEnabled} (QModelIndex 1 0) = Inr {ItemIsSelectable, ItemIsEnabled}
   \<and> setData \<lparr>path = [''lib''], content = [(''a.py'', False, 10), (''..'', True, 1)]\<rparr>
       (QModelIndex 1 0) ''x'' DecorationRole
     = Inr (False, \<lparr>path = [''lib''], content = [(''a.py'', False, 10), (''..'', True, 1)]\<rparr>, [])"
  using parent_marker_not_editable
    [of "QModelIndex 1 0" "\<lparr>path = [''lib''], content = [(''a.py'', False, 10), (''..'', True, 1)]\<rparr>"
        True 1 "{ItemIsSelectable, ItemIsEnabled}" DecorationRole "''x''"]
  by (simp add: rowCount_def)

text \<open>
  Claim C2. A delete request (\<open>do_delete\<close>) emits the delete command and leaves the
  object as it was; a rename request (\<open>setData\<close> that returned) leaves the object as it
  was too. When the completion callback then arrives, \<open>on_delete\<close> or \<open>on_delete_fail\<close>,
  \<open>on_mv\<close> or \<open>on_mv_fail\<close>, whatever its arguments, it emits exactly one signal, a list
  request for the path joined with \<open>/\<close>, and the object, so also its path, is the one
  from before the request.
\<close>

theorem completion_relists_once:
  "(\<forall>s1 sigs1. do_delete self file = (s1, sigs1) \<longrightarrow>
      sigs1 = [Delete (join ''/'' (path self) @ ''/'' @ file)]
      \<and> on_delete s1 f = (self, [List_files (join ''/'' (path self))])
      \<and> on_delete_fail s1 f = (self, [List_files (join ''/'' (path self))]))
   \<and> (\<forall>b s1 sigs1. setData self index val r = Inr (b, s1, sigs1) \<longrightarrow>
      on_mv s1 f g = (self, [List_files (join ''/'' (path self))])
      \<and> on_mv_fail s1 f g = (self, [List_files (join ''/'' (path self))]))"
  by (auto simp add: do_delete_def on_delete_def on_delete_fail_def on_mv_def on_mv_fail_def
      setData_def invalidate_def split: sum.splits prod.splits if_splits)

theorem completion_relists_once_witness:
  "on_delete (fst (do_delete \<lparr>path = [], content = [(''alpha'', True, 0), (''b.txt'', False, 120)]\<rparr> ''b.txt'')) ''/b.txt''
     = (\<lparr>path = [], content = [(''alpha'', True, 0), (''b.txt'', False, 120)]\<rparr>, [List_files ''''])
   \<and> setData \<lparr>path = [], content = [(''alpha'', True, 0), (''b.txt'', False, 120)]\<rparr>
        (QModelIndex 1 0) ''c.txt'' EditRole
      = Inr (True, \<lparr>path = [], content = [(''alpha'', True, 0), (''b.txt'', False, 120)]\<rparr>,
             [Rename ''/b.txt'' ''/c.txt'', List_files ''''])
   \<and> on_mv_fail \<lparr>path = [], content = [(''alpha'', True, 0), (''b.txt'', False, 120)]\<rparr> ''/b.txt'' ''/c.txt''
     = (\<lparr>path = [], content = [(''alpha'', True, 0), (''b.txt'', False, 120)]\<rparr>, [List_files ''''])"
  using completion_relists_once
    [of "\<lparr>path = [], content = [(''alpha'', True, 0), (''b.txt'', False, 120)]\<rparr>" "''b.txt''"
        "''/b.txt''" "QModelIndex 1 0" "''c.txt''" EditRole "''/c.txt''"]
  by (simp add: do_delete_def setData_def py_index_def invalidate_def on_delete_def on_mv_fail_def)

section \<open>Entering directories\<close>


text \<open>
  That object is reached from the constructor: list the root, enter \<open>a\<close>, receive the
  listing of \<open>a\<close>, go up. The path is empty again while the listing of \<open>a\<close>, with its
  parent marker, is still the current one until the next list response arrives.
\<close>

lemma stale_parent_marker_reachable:
  "\<exists>s1 s2 s3 i1 i2 e1 e2 d1.
     enter_directory (fst (on_ls (fst init) [(''a'', True, 0)])) (QModelIndex 0 0) = Inr (i1, s1, e1)
     \<and> on_ls s1 [] = (s2, d1)
     \<and> enter_directory s2 (QModelIndex 0 0) = Inr (i2, s3, e2)
     \<and> s3 = \<lparr>path = [], content = [(''..'', True, 1)]\<rparr>"
  by (simp add: init_def invalidate_def on_ls_def enter_directory_def py_index_def py_pop_def)





section \<open>The ordering of the proxy\<close>

lemma data_in_range:
  "valid_row s ix \<Longrightarrow> data s ix DisplayRole = Inr (VStr (fst (content s ! nat (row ix))))"
  by (simp add: valid_row_def data_def rowCount_def py_index_in_range split: prod.splits)

lemma is_directory_in_range:
  "valid_row s ix \<Longrightarrow> is_directory s ix = Inr (fst (snd (content s ! nat (row ix))))"
  by (simp add: valid_row_def is_directory_def rowCount_def py_index_in_range split: prod.splits)

lemma lessThan_in_range:
  assumes "valid_row s l" and "valid_row s r"
  shows "lessThan_proxy s l r = Inr (entry_less (content s ! nat (row l)) (content s ! nat (row r)))"
  by (simp add: lessThan_proxy_def base_lessThan_def data_in_range [OF assms(1)] data_in_range [OF assms(2)]
      is_directory_in_range [OF assms(1)] is_directory_in_range [OF assms(2)]
      entry_less_def split: prod.splits)








lemma entry_less_rank:
  "entry_less a b \<Longrightarrow> \<not> (fst a = ''..'' \<and> fst b = ''..'') \<Longrightarrow> sort_rank a < sort_rank b"
  by (cases a; cases b) (auto simp add: entry_less_def ci_less_def sort_rank_def split: if_splits)

text \<open>
  A listing with at most one row named \<open>..\<close> has an ordering: sorting the source rows
  by rank gives one.
\<close>

lemma proxy_order_exists:
  assumes one: "\<And>i j. i < length (content s) \<Longrightarrow> j < length (content s) \<Longrightarrow>
             fst (content s ! i) = ''..'' \<Longrightarrow> fst (content s ! j) = ''..'' \<Longrightarrow> i = j"
  shows "\<exists>ixs. proxy_order s ixs"
proof -
  define rows where "rows = map (\<lambda>r. index_of s (int r)) [0..<length (content s)]"
  define f where "f = (\<lambda>ix. sort_rank (content s ! nat (row ix)))"
  define ixs where "ixs = sort_key f rows"
  have rows_eq: "rows = map (\<lambda>r. QModelIndex (int r) 0) [0..<length (content s)]"
    by (simp add: rows_def index_of_def rowCount_def columnCount_def createIndex_def)
  have "distinct rows"
    by (simp add: rows_eq distinct_map inj_on_def)
  then have dist: "distinct ixs"
    by (simp add: ixs_def)
  have ms: "mset ixs = mset rows"
    by (simp add: ixs_def)
  have srt: "sorted (map f ixs)"
    by (simp add: ixs_def)
  have valid: "valid_row s ix" if "ix \<in> set ixs" for ix
  proof -
    have "ix \<in> set rows" using that ms by (metis set_mset_mset)
    then show ?thesis by (auto simp add: rows_eq valid_row_def rowCount_def)
  qed
  have "lessThan_proxy s (ixs ! q) (ixs ! p) \<noteq> Inr True" if "p < q" "q < length ixs" for p q
  proof
    assume lt: "lessThan_proxy s (ixs ! q) (ixs ! p) = Inr True"
    have vp: "valid_row s (ixs ! p)" and vq: "valid_row s (ixs ! q)"
      using that valid by auto
    have el: "entry_less (content s ! nat (row (ixs ! q))) (content s ! nat (row (ixs ! p)))"
      using lt by (simp add: lessThan_in_range [OF vq vp])
    have le: "f (ixs ! p) \<le> f (ixs ! q)"
      using srt that by (simp add: sorted_iff_nth_mono)
    have "\<not> (fst (content s ! nat (row (ixs ! q))) = ''..''
              \<and> fst (content s ! nat (row (ixs ! p))) = ''..'')"
    proof
      assume both: "fst (content s ! nat (row (ixs ! q))) = ''..''
                    \<and> fst (content s ! nat (row (ixs ! p))) = ''..''"
      have lp: "nat (row (ixs ! p)) < length (content s)"
        and lq: "nat (row (ixs ! q)) < length (content s)"
        using vp vq by (auto simp add: valid_row_def rowCount_def)
      have "nat (row (ixs ! q)) = nat (row (ixs ! p))"
        using one [OF lq lp] both by simp
      moreover have "ixs ! p \<in> set rows" "ixs ! q \<in> set rows"
        using that ms by (metis nth_mem set_mset_mset order_less_trans)+
      ultimately have "ixs ! q = ixs ! p"
        by (auto simp add: rows_eq)
      then show False
        using dist that by (simp add: nth_eq_iff_index_eq)
    qed
    from entry_less_rank [OF el this] le show False
      by (simp add: f_def)
  qed
  then have "sorted_wrt (\<lambda>a b. lessThan_proxy s b a \<noteq> Inr True) ixs"
    by (simp add: sorted_wrt_iff_nth_less)
  then have "proxy_order s ixs"
    using ms by (simp add: proxy_order_def rows_def)
  then show ?thesis ..
qed








end
